theory Spec2Isabelle
  imports Complex_Main "HOL-Library.Multiset" "HOL-Library.Sublist"
begin

section \<open>The dragon-tiger-list dashboard (app.py)\<close>

text \<open>
  The program is one Python file: \<^verbatim>\<open>format_number\<close>, \<^verbatim>\<open>get_lhb_data\<close>,
  \<^verbatim>\<open>find_latest_data\<close> and \<^verbatim>\<open>main\<close>. Its collaborators are libraries: the data
  provider (akshare), pandas, the standard \<^verbatim>\<open>datetime\<close> module, the page framework
  (streamlit) and the chat-completion client. The functions of the file are embedded as
  HOL functions; what a library call answers is an argument of the embedding.

  Conventions.
  \<^item> A Python \<^verbatim>\<open>str\<close> is a \<^typ>\<open>string\<close> holding its UTF-8 bytes. Concatenation and
    substring search agree with those on code points, UTF-8 being self-synchronising.
  \<^item> A float is the rational number it denotes exactly; a missing value (\<^verbatim>\<open>None\<close>,
    \<^verbatim>\<open>NaN\<close>) is \<^term>\<open>None\<close>. Infinities and the negative zero are outside the model.
  \<^item> A DataFrame is the list of its rows in index order; it is \<^verbatim>\<open>empty\<close> when the
    list is \<^term>\<open>[]\<close>. The columns the program reads are the fields of the row type,
    so every frame has them; codes, names and reasons are strings.
  \<^item> The sum of a column is the exact sum of its numbers; the rounding of float addition
    is not modelled.
\<close>

subsection \<open>Rendering a float with two decimals\<close>

text \<open>
  \<^verbatim>\<open>f"{x:.2f}"\<close> prints the decimal with two fractional digits nearest to the exact value
  of the float, a tie going to the even neighbour, and keeps the sign of a negative
  value that rounds to zero.
\<close>

definition round_half_even :: "rat \<Rightarrow> int" where
  "round_half_even x =
     (let f = \<lfloor>x\<rfloor>; d = x - of_int f
      in if d < 1 / 2 then f
         else if 1 / 2 < d then f + 1
         else if even f then f else f + 1)"

definition digit_char :: "int \<Rightarrow> char" where
  "digit_char d = ''0123456789'' ! nat d"

function digits :: "int \<Rightarrow> string" where
  "digits n = (if n < 10 then [digit_char n] else digits (n div 10) @ [digit_char (n mod 10)])"
  by pat_completeness auto
termination
  by (relation "measure nat") auto

declare digits.simps [simp del]

definition fmt2 :: "rat \<Rightarrow> string" where
  "fmt2 x =
     (let c = round_half_even (\<bar>x\<bar> * 100)
      in (if x < 0 then ''-'' else []) @ digits (c div 100) @ ''.''
           @ [digit_char (c mod 100 div 10), digit_char (c mod 10)])"

subsection \<open>format_number\<close>

text \<open>The two unit suffixes: the characters for hundred million and for ten thousand.\<close>

definition unit_yi :: string where
  "unit_yi = [CHR 0xE4, CHR 0xBA, CHR 0xBF]"

definition unit_wan :: string where
  "unit_wan = [CHR 0xE4, CHR 0xB8, CHR 0x87]"

text \<open>
  \<^verbatim>\<open>
  def format_number(num):
      if pd.isna(num): return "0"
      num = float(num)
      if num >= 100000000:  return f"{num / 100000000:.2f}<yi>"
      elif num >= 10000:    return f"{num / 10000:.2f}<wan>"
      else:                 return f"{num:.2f}"
  \<close>
  The argument is \<^term>\<open>None\<close> where \<^verbatim>\<open>pd.isna\<close> holds and \<^term>\<open>Some v\<close> for the
  float \<^verbatim>\<open>float(num)\<close> otherwise. The quotient of two floats is a float again, the
  exact quotient rounded to binary64, and the digits printed are those of the rounded
  quotient: the division \<open>fdiv\<close> is an argument, so that what is proved holds for the
  rounding division as for the exact one.
\<close>

definition format_number :: "(rat \<Rightarrow> rat \<Rightarrow> rat) \<Rightarrow> rat option \<Rightarrow> string" where
  "format_number fdiv num =
     (case num of
        None \<Rightarrow> ''0''
      | Some v \<Rightarrow>
          if 100000000 \<le> v then fmt2 (fdiv v 100000000) @ unit_yi
          else if 10000 \<le> v then fmt2 (fdiv v 10000) @ unit_wan
          else fmt2 v)"

subsection \<open>Library values: errors, fetches, frames\<close>

datatype py_error = IndexError | KeyError | OtherError

text \<open>
  What one call of a provider function does: it raises, it returns \<^verbatim>\<open>None\<close>, or it
  returns a DataFrame (possibly an empty one).
\<close>

datatype 'r fetch = Raises | Returns_None | Frame "'r list"

text \<open>
  A cell of the net-buy column as the provider delivers it: a number, a text, or
  missing. \<^verbatim>\<open>pd.to_numeric(column, errors='coerce')\<close> keeps a number, parses a text and
  turns what does not parse into the missing value; the parser \<open>parse\<close> of the library
  is an argument (\<^term>\<open>None\<close> where the text is no number).
\<close>

datatype cell = Number rat | Text string | NaN

definition to_numeric :: "(string \<Rightarrow> rat option) \<Rightarrow> cell \<Rightarrow> rat option" where
  "to_numeric parse c = (case c of Number v \<Rightarrow> Some v | Text s \<Rightarrow> parse s | NaN \<Rightarrow> None)"

text \<open>
  A disclosure record (a row of \<^verbatim>\<open>detail_df\<close>): stock code, name, closing price, percent
  change, net buy amount, turnover rate and listing reason. The type of the net-buy
  field is a parameter: a \<^typ>\<open>cell\<close> as fetched, a \<^typ>\<open>rat option\<close> once coerced.
\<close>

datatype 'n detail_row =
  Detail_row (code: string) (stock_name: string) (close_price: "rat option")
    (pct_change: "rat option") (net_buy: 'n) (turnover: "rat option") (reason: string)

text \<open>A row of the institutional summary (its buy-total column) and a branch row.\<close>

datatype jg_row = Jg_row (jg_buy: "rat option")

datatype yyb_row = Yyb_row (yyb_name: string) (buy_amount: "rat option")

text \<open>The provider: the three functions the program calls, by the date string.\<close>

record source =
  stock_lhb_detail_em :: "string \<Rightarrow> cell detail_row fetch"
  stock_lhb_jgmmtj_em :: "string \<Rightarrow> jg_row fetch"
  stock_lhb_hyyyb_em :: "string \<Rightarrow> yyb_row fetch"

subsection \<open>get_lhb_data\<close>

text \<open>
  \<^verbatim>\<open>
  def get_lhb_data(date_str):
      try:
          detail_df = ak.stock_lhb_detail_em(start_date=date_str, end_date=date_str)
          if detail_df is None or detail_df.empty:
              return None, None, None
          jg_df = ak.stock_lhb_jgmmtj_em(start_date=date_str, end_date=date_str)
          yyb_df = ak.stock_lhb_hyyyb_em(start_date=date_str, end_date=date_str)
          return detail_df, jg_df, yyb_df
      except Exception as e:
          st.error(...)
          return None, None, None
  \<close>
  One \<^verbatim>\<open>try\<close> encloses the three calls, so an error raised by any of them ends in the
  handler. The result is the triple returned and whether the handler showed its error
  message. The cache decorator (one hour, by date) is not modelled: a load is one call.
\<close>

type_synonym day_data =
  "cell detail_row list option \<times> jg_row list option \<times> yyb_row list option"

definition frame_of :: "'r fetch \<Rightarrow> 'r list option" where
  "frame_of f = (case f of Frame rows \<Rightarrow> Some rows | _ \<Rightarrow> None)"

definition get_lhb_data :: "source \<Rightarrow> string \<Rightarrow> day_data \<times> bool" where
  "get_lhb_data ak date_str =
     (case stock_lhb_detail_em ak date_str of
        Raises \<Rightarrow> ((None, None, None), True)
      | Returns_None \<Rightarrow> ((None, None, None), False)
      | Frame detail_df \<Rightarrow>
          if detail_df = [] then ((None, None, None), False)
          else (case stock_lhb_jgmmtj_em ak date_str of
                  Raises \<Rightarrow> ((None, None, None), True)
                | jg \<Rightarrow>
                   (case stock_lhb_hyyyb_em ak date_str of
                      Raises \<Rightarrow> ((None, None, None), True)
                    | yyb \<Rightarrow> ((Some detail_df, frame_of jg, frame_of yyb), False))))"

subsection \<open>find_latest_data\<close>

text \<open>
  A date is its proleptic Gregorian ordinal (\<^verbatim>\<open>date.toordinal()\<close>), so that
  \<^verbatim>\<open>today - timedelta(days=i)\<close> is a subtraction and \<^verbatim>\<open>weekday()\<close>, Monday being 0, is
  \<open>(ordinal + 6) mod 7\<close>. \<^verbatim>\<open>strftime\<close> is the library's and an argument of the model.
\<close>

definition weekday :: "int \<Rightarrow> nat" where
  "weekday d = nat ((d + 6) mod 7)"

text \<open>The seven weekday names of the source, Monday first, and the two full-width brackets.\<close>

definition zhou :: string where
  "zhou = [CHR 0xE5, CHR 0x91, CHR 0xA8]"

definition week_days :: "string list" where
  "week_days =
     [zhou @ [CHR 0xE4, CHR 0xB8, CHR 0x80], zhou @ [CHR 0xE4, CHR 0xBA, CHR 0x8C],
      zhou @ [CHR 0xE4, CHR 0xB8, CHR 0x89], zhou @ [CHR 0xE5, CHR 0x9B, CHR 0x9B],
      zhou @ [CHR 0xE4, CHR 0xBA, CHR 0x94], zhou @ [CHR 0xE5, CHR 0x85, CHR 0xAD],
      zhou @ [CHR 0xE6, CHR 0x97, CHR 0xA5]]"

definition lbracket :: string where
  "lbracket = [CHR 0xEF, CHR 0xBC, CHR 0x88]"

definition rbracket :: string where
  "rbracket = [CHR 0xEF, CHR 0xBC, CHR 0x89]"

definition date_str_of :: "(int \<Rightarrow> string \<Rightarrow> string) \<Rightarrow> int \<Rightarrow> nat \<Rightarrow> string" where
  "date_str_of strftime today i = strftime (today - int i) ''%Y%m%d''"

definition display_of :: "(int \<Rightarrow> string \<Rightarrow> string) \<Rightarrow> int \<Rightarrow> nat \<Rightarrow> string" where
  "display_of strftime today i =
     (let check_date = today - int i
      in strftime check_date ''%Y-%m-%d'' @ lbracket @ week_days ! weekday check_date @ rbracket)"

text \<open>
  \<^verbatim>\<open>
  def find_latest_data():
      today = datetime.now()
      for i in range(10):
          check_date = today - timedelta(days=i)
          date_str = check_date.strftime("%Y%m%d")
          display_date = check_date.strftime("%Y-%m-%d")
          week_day = [...][check_date.weekday()]
          try:
              df = ak.stock_lhb_detail_em(start_date=date_str, end_date=date_str)
              if df is not None and not df.empty:
                  return date_str, f"{display_date}<(>{week_day}<)>"
          except:
              pass
      return None, None
  \<close>
  The loop is a recursion over the offsets still to try. The result is the pair returned
  (\<^term>\<open>None\<close> for \<^verbatim>\<open>(None, None)\<close>) together with the date strings the provider was
  asked for, in the order of the calls. Each date is asked for once, so what the provider
  answers is a function of the date string.
\<close>

definition non_empty :: "'r fetch \<Rightarrow> bool" where
  "non_empty f = (case f of Frame rows \<Rightarrow> rows \<noteq> [] | _ \<Rightarrow> False)"

fun scan_back ::
  "(int \<Rightarrow> string \<Rightarrow> string) \<Rightarrow> (string \<Rightarrow> 'r fetch) \<Rightarrow> int \<Rightarrow> nat list
     \<Rightarrow> (string \<times> string) option \<times> string list" where
  "scan_back strftime probe today [] = (None, [])"
| "scan_back strftime probe today (i # rest) =
     (let date_str = date_str_of strftime today i
      in if non_empty (probe date_str)
         then (Some (date_str, display_of strftime today i), [date_str])
         else (case scan_back strftime probe today rest of
                 (res, asked) \<Rightarrow> (res, date_str # asked)))"

definition find_latest_data ::
  "(int \<Rightarrow> string \<Rightarrow> string) \<Rightarrow> (string \<Rightarrow> 'r fetch) \<Rightarrow> int
     \<Rightarrow> (string \<times> string) option \<times> string list" where
  "find_latest_data strftime probe today = scan_back strftime probe today [0..<10]"

subsection \<open>The metrics of main\<close>

text \<open>
  \<^verbatim>\<open>
  total_stocks = len(detail_df['<code>'].unique())
  jg_buy_total = 0
  if jg_df is not None and not jg_df.empty:
      jg_buy_total = jg_df['<institutional buy total>'].sum()
  waizi_buy_total = 0
  if yyb_df is not None and not yyb_df.empty:
      waizi_mask = yyb_df['<branch name>'].str.contains('<gu tong>')
      waizi_buy_total = yyb_df[waizi_mask]['<buy total>'].sum()
  \<close>
  \<^verbatim>\<open>Series.sum()\<close> skips missing values and is 0 on an empty column. The pattern given
  to \<^verbatim>\<open>str.contains\<close> has no regular-expression operator: the test is a substring search.
\<close>

definition nansum :: "rat option list \<Rightarrow> rat" where
  "nansum col = sum_list (map (\<lambda>v. case v of None \<Rightarrow> 0 | Some x \<Rightarrow> x) col)"

fun str_contains :: "string \<Rightarrow> string \<Rightarrow> bool" where
  "str_contains pat [] = (pat = [])"
| "str_contains pat (c # cs) = (prefix pat (c # cs) \<or> str_contains pat cs)"

text \<open>The marker of the cross-border trading channels, two characters.\<close>

definition gu_tong :: string where
  "gu_tong = [CHR 0xE8, CHR 0x82, CHR 0xA1, CHR 0xE9, CHR 0x80, CHR 0x9A]"

definition total_stocks :: "'n detail_row list \<Rightarrow> nat" where
  "total_stocks detail_df = length (remdups (map code detail_df))"

definition jg_buy_total :: "jg_row list option \<Rightarrow> rat" where
  "jg_buy_total jg_df =
     (case jg_df of
        None \<Rightarrow> 0
      | Some rows \<Rightarrow> if rows \<noteq> [] then nansum (map jg_buy rows) else 0)"

definition waizi_mask :: "yyb_row \<Rightarrow> bool" where
  "waizi_mask r = str_contains gu_tong (yyb_name r)"

definition waizi_buy_total :: "yyb_row list option \<Rightarrow> rat" where
  "waizi_buy_total yyb_df =
     (case yyb_df of
        None \<Rightarrow> 0
      | Some rows \<Rightarrow>
          if rows \<noteq> [] then nansum (map buy_amount (filter waizi_mask rows)) else 0)"

subsection \<open>Ranking\<close>

text \<open>
  \<^verbatim>\<open>
  detail_df['<net buy>'] = pd.to_numeric(detail_df['<net buy>'], errors='coerce')
  top1_stock = detail_df.sort_values(by='<net buy>', ascending=False).iloc[0]
  top10_df = detail_df.sort_values(by='<net buy>', ascending=False).head(10)[actual_cols]
  \<close>
  \<^verbatim>\<open>sort_values\<close> is called with no \<^verbatim>\<open>kind\<close>, so with the library's default
  \<^verbatim>\<open>'quicksort'\<close>, which the library documents as not stable; which kernel runs depends on
  the platform. What the library promises for this call is \<open>sort_values_ok\<close>: the rows
  are rearranged, the key descends and the rows with a missing key come last
  (\<^verbatim>\<open>na_position='last'\<close>). The sort itself is an argument of the model, and the
  order it gives to rows with equal keys is left open: it is decided by the library's sort
  kernel, which is not part of the program.
\<close>

definition coerce_net_buy ::
  "(string \<Rightarrow> rat option) \<Rightarrow> cell detail_row list \<Rightarrow> rat option detail_row list" where
  "coerce_net_buy parse detail_df = map (map_detail_row (to_numeric parse)) detail_df"

definition desc_na_last :: "rat option \<Rightarrow> rat option \<Rightarrow> bool" where
  "desc_na_last a b =
     (case b of None \<Rightarrow> True | Some y \<Rightarrow> (case a of None \<Rightarrow> False | Some x \<Rightarrow> y \<le> x))"

definition sort_values_ok ::
  "rat option detail_row list \<Rightarrow> rat option detail_row list \<Rightarrow> bool" where
  "sort_values_ok df ranked =
     (mset ranked = mset df \<and> sorted_wrt (\<lambda>a b. desc_na_last (net_buy a) (net_buy b)) ranked)"

definition iloc0 :: "'a list \<Rightarrow> py_error + 'a" where
  "iloc0 rows = (case rows of [] \<Rightarrow> Inl IndexError | r # _ \<Rightarrow> Inr r)"

definition head10 :: "'a list \<Rightarrow> 'a list" where
  "head10 rows = take 10 rows"

type_synonym sorter = "rat option detail_row list \<Rightarrow> rat option detail_row list"

definition top1_stock :: "sorter \<Rightarrow> rat option detail_row list \<Rightarrow> py_error + rat option detail_row" where
  "top1_stock sort_values df = iloc0 (sort_values df)"

definition top10_df :: "sorter \<Rightarrow> rat option detail_row list \<Rightarrow> rat option detail_row list" where
  "top10_df sort_values df = head10 (sort_values df)"

text \<open>The row of the table shown: name, code, price, change and the formatted net buy.\<close>

definition show_row ::
  "(rat \<Rightarrow> rat \<Rightarrow> rat) \<Rightarrow> rat option detail_row
     \<Rightarrow> string \<times> string \<times> rat option \<times> rat option \<times> string" where
  "show_row fdiv r =
     (stock_name r, code r, close_price r, pct_change r, format_number fdiv (net_buy r))"

subsection \<open>The commentary panel\<close>

text \<open>
  \<^verbatim>\<open>
  secrets_missing = False
  try:
      if "openai" not in st.secrets: secrets_missing = True
  except Exception: secrets_missing = True
  if secrets_missing:
      st.error(...); st.info(...); return
  ai_df = detail_df.sort_values(...).head(10)[existing_ai_cols]  (renamed, as markdown)
  try:
      client = OpenAI(api_key=st.secrets["openai"]["api_key"],
                      base_url=st.secrets["openai"]["base_url"])
      model_name = st.secrets["openai"].get("model", "gpt-3.5-turbo")
      response = client.chat.completions.create(model=model_name, messages=[...], ...)
      analysis_result = response.choices[0].message.content
      st.success(...); st.info(analysis_result)
  except Exception as e:
      st.error(...)
  \<close>
  The secrets are unreadable (reading them raises) or a table of sections, each a table
  of keys. The chat endpoint is an argument: it answers a request with a text or raises.
  The result is what the panel shows and the requests sent to the endpoint. A key missing
  from the section raises inside the second \<^verbatim>\<open>try\<close>, before any request. Rendering the
  table as text and constructing the client are taken to succeed; the request carries the
  table itself.
\<close>

datatype secrets = Unreadable | Secrets "(string \<times> (string \<times> string) list) list"

type_synonym ai_row = "string \<times> string \<times> rat option \<times> rat option \<times> rat option"

record request =
  req_api_key :: string
  req_base_url :: string
  req_model :: string
  req_table :: "ai_row list"

datatype ai_result = Config_error | Request_failed | Analysis string

definition ai_row_of :: "rat option detail_row \<Rightarrow> ai_row" where
  "ai_row_of r = (stock_name r, code r, net_buy r, pct_change r, turnover r)"

definition ai_analysis ::
  "secrets \<Rightarrow> (request \<Rightarrow> py_error + string) \<Rightarrow> ai_row list \<Rightarrow> ai_result \<times> request list" where
  "ai_analysis secrets chat ai_df =
     (case secrets of
        Unreadable \<Rightarrow> (Config_error, [])
      | Secrets toml \<Rightarrow>
         (case map_of toml ''openai'' of
            None \<Rightarrow> (Config_error, [])
          | Some openai \<Rightarrow>
             (case map_of openai ''api_key'' of
                None \<Rightarrow> (Request_failed, [])
              | Some api_key \<Rightarrow>
                 (case map_of openai ''base_url'' of
                    None \<Rightarrow> (Request_failed, [])
                  | Some base_url \<Rightarrow>
                     (let model_name =
                            (case map_of openai ''model'' of
                               None \<Rightarrow> ''gpt-3.5-turbo'' | Some m \<Rightarrow> m);
                          req = \<lparr>req_api_key = api_key, req_base_url = base_url,
                                 req_model = model_name, req_table = ai_df\<rparr>
                      in case chat req of
                           Inl e \<Rightarrow> (Request_failed, [req])
                         | Inr analysis_result \<Rightarrow> (Analysis analysis_result, [req]))))))"

subsection \<open>main\<close>

text \<open>
  What a page load depends on: the library functions, the provider, today's date,
  whether the analysis button was pressed, the secrets and the chat endpoint.
\<close>

record world =
  w_strftime :: "int \<Rightarrow> string \<Rightarrow> string"
  w_fdiv :: "rat \<Rightarrow> rat \<Rightarrow> rat"
  w_parse :: "string \<Rightarrow> rat option"
  w_sort_values :: sorter
  w_ak :: source
  w_today :: int
  w_button :: bool
  w_secrets :: secrets
  w_chat :: "request \<Rightarrow> py_error + string"

text \<open>What the page shows when the data are there.\<close>

record view =
  date_display :: string
  stocks_metric :: nat
  jg_metric :: string
  waizi_metric :: string
  top1 :: "rat option detail_row"
  top1_net_buy :: string
  top10_show :: "(string \<times> string \<times> rat option \<times> rat option \<times> string) list"
  ai_panel :: "(ai_result \<times> request list) option"

datatype page = No_data | No_detail | Crashed py_error | Dashboard view

text \<open>
  \<^verbatim>\<open>main\<close> in the order of the source: resolve the date (\<^verbatim>\<open>if not date_str\<close> holds for
  \<^verbatim>\<open>None\<close> and for the empty string), load the day (\<^verbatim>\<open>if detail_df is None\<close>), then,
  in \<open>main_render\<close>, compute the metrics, coerce and rank, show the first row and the
  first ten, and run the panel when the button is pressed. The frame is sorted three
  times, for the first row, for the table and for the panel; the sort being a function,
  the three results agree. An error raised outside a handler ends the page
  (\<open>Crashed\<close>). Titles, separators and captions are left out, and within one page load
  the provider answers a repeated call alike.
\<close>

definition main_render ::
  "world \<Rightarrow> string \<Rightarrow> cell detail_row list \<Rightarrow> jg_row list option \<Rightarrow> yyb_row list option
     \<Rightarrow> page" where
  "main_render w shown detail_df jg_df yyb_df =
     (let df = coerce_net_buy (w_parse w) detail_df
      in case top1_stock (w_sort_values w) df of
           Inl e \<Rightarrow> Crashed e
         | Inr first \<Rightarrow>
             Dashboard
               \<lparr>date_display = shown,
                stocks_metric = total_stocks detail_df,
                jg_metric = format_number (w_fdiv w) (Some (jg_buy_total jg_df)),
                waizi_metric = format_number (w_fdiv w) (Some (waizi_buy_total yyb_df)),
                top1 = first,
                top1_net_buy = format_number (w_fdiv w) (net_buy first),
                top10_show = map (show_row (w_fdiv w)) (top10_df (w_sort_values w) df),
                ai_panel =
                  (if w_button w
                   then Some (ai_analysis (w_secrets w) (w_chat w)
                                (map ai_row_of (head10 (w_sort_values w df))))
                   else None)\<rparr>)"

definition main :: "world \<Rightarrow> page" where
  "main w =
     (case fst (find_latest_data (w_strftime w) (stock_lhb_detail_em (w_ak w)) (w_today w)) of
        None \<Rightarrow> No_data
      | Some (date_str, shown) \<Rightarrow>
          if date_str = [] then No_data
          else (case fst (get_lhb_data (w_ak w) date_str) of
                  (None, jg_df, yyb_df) \<Rightarrow> No_detail
                | (Some detail_df, jg_df, yyb_df) \<Rightarrow>
                    main_render w shown detail_df jg_df yyb_df))"

subsection \<open>A calendar, for running the model\<close>

text \<open>
  The Gregorian date of an ordinal and the three \<^verbatim>\<open>strftime\<close> directives the program
  uses (year in four digits, month and day in two). The theorems below hold for every
  \<^verbatim>\<open>strftime\<close>; this one is what the examples run with.
\<close>

definition is_leap :: "int \<Rightarrow> bool" where
  "is_leap y = (y mod 4 = 0 \<and> (y mod 100 \<noteq> 0 \<or> y mod 400 = 0))"

definition days_in_month :: "int \<Rightarrow> int \<Rightarrow> int" where
  "days_in_month y m =
     (if m = 2 then (if is_leap y then 29 else 28)
      else if m = 4 \<or> m = 6 \<or> m = 9 \<or> m = 11 then 30 else 31)"

function month_day :: "int \<Rightarrow> int \<Rightarrow> int \<Rightarrow> int \<times> int \<times> int" where
  "month_day y m n =
     (if m < 12 \<and> days_in_month y m \<le> n then month_day y (m + 1) (n - days_in_month y m)
      else (y, m, n + 1))"
  by pat_completeness auto
termination
  by (relation "measure (\<lambda>(y, m, n). nat (12 - m))") auto

declare month_day.simps [simp del]

definition ord2ymd :: "int \<Rightarrow> int \<times> int \<times> int" where
  "ord2ymd ordinal =
     (let n = ordinal - 1;
          n400 = n div 146097; r400 = n mod 146097;
          n100 = r400 div 36524; r100 = r400 mod 36524;
          n4 = r100 div 1461; r4 = r100 mod 1461;
          n1 = r4 div 365; r1 = r4 mod 365;
          year = n400 * 400 + n100 * 100 + n4 * 4 + n1 + 1
      in if n1 = 4 \<or> n100 = 4 then (year - 1, 12, 31) else month_day year 1 r1)"

definition zero_pad :: "nat \<Rightarrow> int \<Rightarrow> string" where
  "zero_pad w n = (let s = digits n in replicate (w - length s) CHR ''0'' @ s)"

fun py_strftime :: "int \<Rightarrow> string \<Rightarrow> string" where
  "py_strftime d (c # e # cs) =
     (if c = CHR ''%'' then
        (case ord2ymd d of
           (y, m, dd) \<Rightarrow>
             (if e = CHR ''Y'' then zero_pad 4 y
              else if e = CHR ''m'' then zero_pad 2 m
              else if e = CHR ''d'' then zero_pad 2 dd
              else [c, e])) @ py_strftime d cs
      else c # py_strftime d (e # cs))"
| "py_strftime d cs = cs"

subsection \<open>Example data\<close>

definition ex_row :: "string \<Rightarrow> cell \<Rightarrow> cell detail_row" where
  "ex_row c v = Detail_row c ''stock'' (Some 10) (Some 1) v None ''reason''"

definition ex_probe :: "string \<Rightarrow> cell detail_row fetch" where
  "ex_probe date_str =
     (if date_str = ''20261103'' then Raises
      else if date_str = ''20261102'' then Frame []
      else if date_str = ''20261101'' then Returns_None
      else if date_str = ''20261031'' then Frame []
      else if date_str = ''20261030'' then Frame [ex_row ''600000'' (Number 5)]
      else if date_str = ''20261029'' then Frame [ex_row ''000001'' (Number 7)]
      else Raises)"

definition ex_closed :: "string \<Rightarrow> cell detail_row fetch" where
  "ex_closed date_str = (if date_str = ''20261031'' then Raises else Frame [])"

text \<open>
  A day with four disclosure records whose net-buy values are 5, 100, -3 and 100; the
  first and the third are the same stock listed for two reasons.
\<close>

definition row_a :: "cell detail_row" where
  "row_a = Detail_row ''600000'' ''alpha'' (Some 10) (Some 1) (Number 5) (Some 2) ''r1''"

definition row_b :: "cell detail_row" where
  "row_b = Detail_row ''000001'' ''beta'' (Some 20) (Some 2) (Number 100) (Some 3) ''r1''"

definition row_c :: "cell detail_row" where
  "row_c = Detail_row ''600000'' ''alpha'' (Some 10) (Some 1) (Number (- 3)) (Some 2) ''r2''"

definition row_d :: "cell detail_row" where
  "row_d = Detail_row ''300750'' ''delta'' (Some 30) (Some 3) (Number 100) None ''r1''"

definition row_e :: "cell detail_row" where
  "row_e = Detail_row ''688001'' ''epsilon'' (Some 40) (Some 4) (Text ''--'') None ''r1''"

definition ex_day :: "cell detail_row list" where
  "ex_day = [row_a, row_b, row_c, row_d]"

text \<open>The same day with a fifth record whose net-buy cell is a text that is no number.\<close>

definition ex_dirty :: "cell detail_row list" where
  "ex_dirty = [row_e, row_a, row_b, row_c, row_d]"

definition ex_parse :: "string \<Rightarrow> rat option" where
  "ex_parse s = (if s = ''42'' then Some 42 else None)"

definition as_num :: "cell detail_row \<Rightarrow> rat option detail_row" where
  "as_num r = map_detail_row (to_numeric ex_parse) r"

text \<open>The institutional summary and the branch records of the example day.\<close>

definition ex_jg :: "jg_row list" where
  "ex_jg = [Jg_row (Some 30000000), Jg_row None, Jg_row (Some 20000000)]"

definition ex_yyb :: "yyb_row list" where
  "ex_yyb =
     [Yyb_row ([CHR 0xE6, CHR 0xB7, CHR 0xB1] @ gu_tong @ ''-1'') (Some 70000000),
      Yyb_row ''Lhasa East Ring Road'' (Some 900000000),
      Yyb_row ([CHR 0xE6, CHR 0xB2, CHR 0xAA] @ gu_tong @ ''-2'') (Some 50000000),
      Yyb_row ''Shanghai Liyang Road'' (Some 1000),
      Yyb_row ''Shenzhen Yitian Road'' None]"

definition ex_ak :: source where
  "ex_ak =
     \<lparr>stock_lhb_detail_em =
        (\<lambda>date_str. if date_str = ''20261030'' then Frame ex_day else ex_probe date_str),
      stock_lhb_jgmmtj_em = (\<lambda>date_str. Frame ex_jg),
      stock_lhb_hyyyb_em = (\<lambda>date_str. Frame ex_yyb)\<rparr>"

text \<open>The same provider with the institutional call failing, and with both secondary
  calls answering nothing.\<close>

definition ex_ak_jg_down :: source where
  "ex_ak_jg_down = ex_ak\<lparr>stock_lhb_jgmmtj_em := (\<lambda>date_str. Raises)\<rparr>"

definition ex_ak_quiet :: source where
  "ex_ak_quiet =
     ex_ak\<lparr>stock_lhb_jgmmtj_em := (\<lambda>date_str. Returns_None),
           stock_lhb_hyyyb_em := (\<lambda>date_str. Frame [])\<rparr>"

text \<open>
  A sort that meets what the library promises, for running the model: it reverses, sorts
  ascending with a stable sort and reverses again, and puts the rows with a missing key
  last.
\<close>

definition key_of :: "rat option detail_row \<Rightarrow> rat" where
  "key_of r = (case net_buy r of None \<Rightarrow> 0 | Some v \<Rightarrow> v)"

definition has_key :: "rat option detail_row \<Rightarrow> bool" where
  "has_key r = (net_buy r \<noteq> None)"

definition stable_sort_values :: sorter where
  "stable_sort_values df =
     rev (sort_key key_of (rev (filter has_key df))) @ filter (\<lambda>r. \<not> has_key r) df"

definition ex_chat :: "request \<Rightarrow> py_error + string" where
  "ex_chat req = Inr (''commentary by '' @ req_model req)"

definition ex_world :: world where
  "ex_world =
     \<lparr>w_strftime = py_strftime, w_fdiv = (/), w_parse = ex_parse,
      w_sort_values = stable_sort_values, w_ak = ex_ak, w_today = 739923,
      w_button = True,
      w_secrets = Secrets [(''openai'', [(''api_key'', ''sk-1''), (''base_url'', ''https://api'')])],
      w_chat = ex_chat\<rparr>"

section \<open>Properties\<close>

subsection \<open>The number formatter\<close>

lemma digit_char_ascii: "0 \<le> d \<Longrightarrow> d < 10 \<Longrightarrow> digit_char d \<in> set ''0123456789''"
proof -
  assume "0 \<le> d" "d < 10"
  then have "nat d < length ''0123456789''" by simp
  then show ?thesis unfolding digit_char_def by (rule nth_mem)
qed

lemma digits_ascii: "0 \<le> n \<Longrightarrow> set (digits n) \<subseteq> set ''0123456789''"
proof (induction n rule: digits.induct)
  case (1 n)
  show ?case
  proof (cases "n < 10")
    case True
    with "1.prems" show ?thesis
      using digit_char_ascii [of n] by (subst digits.simps) simp
  next
    case False
    then have "set (digits (n div 10)) \<subseteq> set ''0123456789''"
      using "1.IH" "1.prems" by simp
    moreover have "digit_char (n mod 10) \<in> set ''0123456789''"
      by (rule digit_char_ascii) simp_all
    ultimately show ?thesis
      using False by (subst digits.simps) simp
  qed
qed

lemma round_half_even_nonneg: "0 \<le> x \<Longrightarrow> 0 \<le> round_half_even x"
  by (auto simp: round_half_even_def Let_def)

lemma fmt2_ascii: "set (fmt2 x) \<subseteq> set ''-.0123456789''"
proof -
  define c where "c = round_half_even (\<bar>x\<bar> * 100)"
  define S where "S = set ''-.0123456789''"
  have sub: "set ''0123456789'' \<subseteq> S" and m: "CHR ''-'' \<in> S" and p: "CHR ''.'' \<in> S"
    unfolding S_def by simp_all
  have c0: "0 \<le> c" unfolding c_def by (rule round_half_even_nonneg) simp
  have "set (digits (c div 100)) \<subseteq> set ''0123456789''"
    by (rule digits_ascii) (use c0 in simp)
  with sub have a: "set (digits (c div 100)) \<subseteq> S" by (rule order_trans [rotated])
  have "digit_char (c mod 100 div 10) \<in> set ''0123456789''"
    by (rule digit_char_ascii) (simp_all add: pos_imp_zdiv_nonneg_iff)
  with sub have b: "digit_char (c mod 100 div 10) \<in> S" by (rule subsetD)
  have "digit_char (c mod 10) \<in> set ''0123456789''"
    by (rule digit_char_ascii) simp_all
  with sub have d: "digit_char (c mod 10) \<in> S" by (rule subsetD)
  have "fmt2 x = (if x < 0 then ''-'' else []) @ digits (c div 100) @ ''.''
           @ [digit_char (c mod 100 div 10), digit_char (c mod 10)]"
    by (simp add: fmt2_def c_def Let_def)
  with a b d m p have "set (fmt2 x) \<subseteq> S" by auto
  then show ?thesis by (simp only: S_def)
qed

lemma fmt2_no_unit: "\<not> suffix unit_yi (fmt2 x) \<and> \<not> suffix unit_wan (fmt2 x)"
proof -
  have out: "CHR 0xE4 \<notin> set (fmt2 x)" using fmt2_ascii [of x] by auto
  have "\<not> suffix unit_yi (fmt2 x)"
  proof
    assume "suffix unit_yi (fmt2 x)"
    then have "set unit_yi \<subseteq> set (fmt2 x)" by (rule set_mono_suffix)
    with out show False by (simp add: unit_yi_def)
  qed
  moreover have "\<not> suffix unit_wan (fmt2 x)"
  proof
    assume "suffix unit_wan (fmt2 x)"
    then have "set unit_wan \<subseteq> set (fmt2 x)" by (rule set_mono_suffix)
    with out show False by (simp add: unit_wan_def)
  qed
  ultimately show ?thesis by simp
qed

text \<open>
  Claim C2, as the code has it. An absent input gives the string \<open>0\<close>. A value of at
  least 100,000,000 gives its quotient by 100,000,000 with two decimals and the
  hundred-million suffix; otherwise a value of at least 10,000 gives its quotient by
  10,000 with two decimals and the ten-thousand suffix; otherwise the value itself is
  printed with two decimals and no unit suffix. The thresholds are compared with the
  signed value, not with its magnitude.
\<close>

theorem format_number_units:
  "format_number fdiv None = ''0''
   \<and> (100000000 \<le> v1 \<longrightarrow>
        format_number fdiv (Some v1) = fmt2 (fdiv v1 100000000) @ unit_yi)
   \<and> (10000 \<le> v2 \<and> v2 < 100000000 \<longrightarrow>
        format_number fdiv (Some v2) = fmt2 (fdiv v2 10000) @ unit_wan)
   \<and> (v3 < 10000 \<longrightarrow>
        format_number fdiv (Some v3) = fmt2 v3
        \<and> \<not> suffix unit_yi (format_number fdiv (Some v3))
        \<and> \<not> suffix unit_wan (format_number fdiv (Some v3)))"
  by (simp add: format_number_def fmt2_no_unit)

theorem format_number_units_witness:
  "(100000000 :: rat) \<le> 250000000
   \<and> format_number (/) (Some 250000000) = ''2.50'' @ unit_yi
   \<and> (10000 :: rat) \<le> 50000000 \<and> (50000000 :: rat) < 100000000
   \<and> format_number (/) (Some 50000000) = ''5000.00'' @ unit_wan
   \<and> (9999 :: rat) < 10000
   \<and> format_number (/) (Some 9999) = ''9999.00''
   \<and> \<not> suffix unit_yi (format_number (/) (Some 9999))
   \<and> \<not> suffix unit_wan (format_number (/) (Some 9999))"
proof -
  have h1: "(100000000 :: rat) \<le> 250000000"
    and h2: "(10000 :: rat) \<le> 50000000 \<and> (50000000 :: rat) < 100000000"
    and h3: "(9999 :: rat) < 10000"
    by simp_all
  have a: "fmt2 (250000000 / 100000000) = ''2.50''" by code_simp
  have b: "fmt2 (50000000 / 10000) = ''5000.00''" by code_simp
  have c: "fmt2 9999 = ''9999.00''" by code_simp
  note t = format_number_units [of "(/)" 250000000 50000000 9999]
  from t h1 a have "format_number (/) (Some 250000000) = ''2.50'' @ unit_yi"
    by (simp only:)
  moreover from t h2 b have "format_number (/) (Some 50000000) = ''5000.00'' @ unit_wan"
    by (simp only:)
  moreover from t h3 c have "format_number (/) (Some 9999) = ''9999.00''"
    by (simp only:)
  moreover from t h3 have "\<not> suffix unit_yi (format_number (/) (Some 9999))"
    and "\<not> suffix unit_wan (format_number (/) (Some 9999))"
    by blast+
  ultimately show ?thesis using h1 h2 h3 by blast
qed

text \<open>
  Read with the magnitude, C2 fails: -200,000,000 has a magnitude above the first
  threshold and is printed in full, without a unit.
\<close>

theorem format_number_magnitude_counterexample:
  "(100000000 :: rat) \<le> \<bar>- 200000000\<bar>
   \<and> format_number (/) (Some (- 200000000)) = ''-200000000.00''
   \<and> format_number (/) (Some (- 200000000)) \<noteq> fmt2 (- 200000000 / 100000000) @ unit_yi"
proof -
  have a: "format_number (/) (Some (- 200000000)) = ''-200000000.00''" by code_simp
  have b: "fmt2 (- 200000000 / 100000000) @ unit_yi = ''-2.00'' @ unit_yi" by code_simp
  show ?thesis unfolding a b by (simp add: unit_yi_def)
qed

text \<open>
  Claim C10. A negative value, whatever its magnitude, is printed as the signed value
  with two decimals and carries neither unit suffix.
\<close>

theorem format_number_negative:
  "v < 0 \<Longrightarrow>
     format_number fdiv (Some v) = fmt2 v
     \<and> \<not> suffix unit_yi (format_number fdiv (Some v))
     \<and> \<not> suffix unit_wan (format_number fdiv (Some v))"
  by (simp add: format_number_def fmt2_no_unit)

theorem format_number_negative_witness:
  "(- 350000000 :: rat) < 0
   \<and> format_number (/) (Some (- 350000000)) = ''-350000000.00''
   \<and> \<not> suffix unit_yi (format_number (/) (Some (- 350000000)))
   \<and> \<not> suffix unit_wan (format_number (/) (Some (- 350000000)))"
proof -
  have h: "(- 350000000 :: rat) < 0" by simp
  have a: "fmt2 (- 350000000) = ''-350000000.00''" by code_simp
  note t = format_number_negative [OF h, of "(/)"]
  from t a have "format_number (/) (Some (- 350000000)) = ''-350000000.00''"
    by (simp only:)
  with t h show ?thesis by blast
qed

subsection \<open>The trading-day resolver\<close>

lemma weekday_in_range: "weekday d < length week_days"
  by (simp add: weekday_def week_days_def)

lemma scan_back_miss:
  "\<forall>i \<in> set offs. \<not> non_empty (probe (date_str_of sf today i)) \<Longrightarrow>
     scan_back sf probe today offs = (None, map (date_str_of sf today) offs)"
  by (induction offs) (simp_all add: Let_def)

lemma scan_back_hit:
  "\<forall>i \<in> set pre. \<not> non_empty (probe (date_str_of sf today i)) \<Longrightarrow>
   non_empty (probe (date_str_of sf today k)) \<Longrightarrow>
     scan_back sf probe today (pre @ k # post)
       = (Some (date_str_of sf today k, display_of sf today k),
          map (date_str_of sf today) (pre @ [k]))"
  by (induction pre) (simp_all add: Let_def)

lemma upt_split_at: "k < n \<Longrightarrow> [0..<n] = [0..<k] @ k # [Suc k..<n]"
proof -
  assume "k < n"
  then have "[0..<n] = [0..<k] @ [k..<n]"
    using upt_add_eq_append [of 0 k "n - k"] by simp
  with \<open>k < n\<close> show ?thesis by (simp add: upt_conv_Cons)
qed

text \<open>
  Claim C1. Scanning the offsets 0 to 9 back from today, \<^verbatim>\<open>find_latest_data\<close> returns
  the date of the first offset whose probe answers a non-empty frame, and has then asked
  the provider for the dates of the offsets up to that one and for no older date. A probe
  that raises, answers \<^verbatim>\<open>None\<close> or answers an empty frame is a miss and the scan goes
  on. When all ten offsets miss, the result is \<^verbatim>\<open>(None, None)\<close>, after ten probes.
\<close>

theorem find_latest_data_first_hit:
  "(k < 10 \<and> non_empty (hit (date_str_of sf today k))
      \<and> (\<forall>j < k. \<not> non_empty (hit (date_str_of sf today j))) \<longrightarrow>
      find_latest_data sf hit today
        = (Some (date_str_of sf today k, display_of sf today k),
           map (date_str_of sf today) [0..<Suc k]))
   \<and> ((\<forall>j < 10. \<not> non_empty (miss (date_str_of sf today j))) \<longrightarrow>
        find_latest_data sf miss today = (None, map (date_str_of sf today) [0..<10]))
   \<and> \<not> non_empty (Raises :: 'r fetch) \<and> \<not> non_empty (Returns_None :: 'r fetch)
   \<and> \<not> non_empty (Frame [] :: 'r fetch)"
proof (intro conjI impI)
  assume h: "k < 10 \<and> non_empty (hit (date_str_of sf today k))
      \<and> (\<forall>j < k. \<not> non_empty (hit (date_str_of sf today j)))"
  then have split: "[0..<10] = [0..<k] @ k # [Suc k..<10]"
    by (simp add: upt_split_at)
  from h have "\<forall>i \<in> set [0..<k]. \<not> non_empty (hit (date_str_of sf today i))"
    by simp
  with h have "scan_back sf hit today ([0..<k] @ k # [Suc k..<10])
       = (Some (date_str_of sf today k, display_of sf today k),
          map (date_str_of sf today) ([0..<k] @ [k]))"
    by (intro scan_back_hit) simp_all
  then show "find_latest_data sf hit today
        = (Some (date_str_of sf today k, display_of sf today k),
           map (date_str_of sf today) [0..<Suc k])"
    unfolding find_latest_data_def using split by simp
next
  assume "\<forall>j < 10. \<not> non_empty (miss (date_str_of sf today j))"
  then have "\<forall>i \<in> set [0..<10]. \<not> non_empty (miss (date_str_of sf today i))"
    by simp
  then show "find_latest_data sf miss today = (None, map (date_str_of sf today) [0..<10])"
    unfolding find_latest_data_def by (rule scan_back_miss)
qed (simp_all add: non_empty_def)


theorem find_latest_data_first_hit_witness:
  "(4 :: nat) < 10
   \<and> map (\<lambda>j. ex_probe (date_str_of py_strftime 739923 j)) [0..<5]
       = [Raises, Frame [], Returns_None, Frame [], Frame [ex_row ''600000'' (Number 5)]]
   \<and> non_empty (ex_probe (date_str_of py_strftime 739923 4))
   \<and> find_latest_data py_strftime ex_probe 739923
       = (Some (''20261030'', ''2026-10-30'' @ lbracket @ week_days ! 4 @ rbracket),
          [''20261103'', ''20261102'', ''20261101'', ''20261031'', ''20261030''])
   \<and> map (\<lambda>j. non_empty (ex_closed (date_str_of py_strftime 739923 j))) [0..<10]
       = replicate 10 False
   \<and> find_latest_data py_strftime ex_closed 739923
       = (None, [''20261103'', ''20261102'', ''20261101'', ''20261031'', ''20261030'',
                 ''20261029'', ''20261028'', ''20261027'', ''20261026'', ''20261025''])"
proof -
  have dates: "map (date_str_of py_strftime 739923) [0..<10]
      = [''20261103'', ''20261102'', ''20261101'', ''20261031'', ''20261030'',
         ''20261029'', ''20261028'', ''20261027'', ''20261026'', ''20261025'']"
    by code_simp
  have d4: "date_str_of py_strftime 739923 4 = ''20261030''" by code_simp
  have disp: "display_of py_strftime 739923 4
      = ''2026-10-30'' @ lbracket @ week_days ! 4 @ rbracket" by code_simp
  have first5: "map (date_str_of py_strftime 739923) [0..<Suc 4]
      = [''20261103'', ''20261102'', ''20261101'', ''20261031'', ''20261030'']"
    by code_simp
  have h1: "non_empty (ex_probe (date_str_of py_strftime 739923 4))" by code_simp
  have h2: "\<forall>j < 4. \<not> non_empty (ex_probe (date_str_of py_strftime 739923 j))"
  proof (intro allI impI)
    fix j :: nat assume "j < 4"
    then have "j \<in> set [0..<4]" by simp
    moreover have "\<forall>j \<in> set [0..<4]. \<not> non_empty (ex_probe (date_str_of py_strftime 739923 j))"
      by code_simp
    ultimately show "\<not> non_empty (ex_probe (date_str_of py_strftime 739923 j))" by blast
  qed
  have h3: "\<forall>j < 10. \<not> non_empty (ex_closed (date_str_of py_strftime 739923 j))"
  proof (intro allI impI)
    fix j :: nat assume "j < 10"
    then have "j \<in> set [0..<10]" by simp
    moreover have "\<forall>j \<in> set [0..<10]. \<not> non_empty (ex_closed (date_str_of py_strftime 739923 j))"
      by code_simp
    ultimately show "\<not> non_empty (ex_closed (date_str_of py_strftime 739923 j))" by blast
  qed
  note t = find_latest_data_first_hit [of 4 ex_probe py_strftime 739923 ex_closed]
  have h0: "(4 :: nat) < 10" by simp
  from t h0 h1 h2 have "find_latest_data py_strftime ex_probe 739923
       = (Some (date_str_of py_strftime 739923 4, display_of py_strftime 739923 4),
          map (date_str_of py_strftime 739923) [0..<Suc 4])"
    by blast
  then have a: "find_latest_data py_strftime ex_probe 739923
       = (Some (''20261030'', ''2026-10-30'' @ lbracket @ week_days ! 4 @ rbracket),
          [''20261103'', ''20261102'', ''20261101'', ''20261031'', ''20261030''])"
    by (simp only: d4 disp first5)
  from t h3 have "find_latest_data py_strftime ex_closed 739923
       = (None, map (date_str_of py_strftime 739923) [0..<10])"
    by blast
  then have b: "find_latest_data py_strftime ex_closed 739923
       = (None, [''20261103'', ''20261102'', ''20261101'', ''20261031'', ''20261030'',
                 ''20261029'', ''20261028'', ''20261027'', ''20261026'', ''20261025''])"
    by (simp only: dates)
  have o1: "map (\<lambda>j. ex_probe (date_str_of py_strftime 739923 j)) [0..<5]
       = [Raises, Frame [], Returns_None, Frame [], Frame [ex_row ''600000'' (Number 5)]]"
    by code_simp
  have o2: "map (\<lambda>j. non_empty (ex_closed (date_str_of py_strftime 739923 j))) [0..<10]
       = replicate 10 False"
    by code_simp
  show ?thesis by (intro conjI) (fact h0 o1 h1 a o2 b)+
qed

subsection \<open>Loading a day\<close>

lemma get_lhb_data_primary_miss:
  "\<not> non_empty (stock_lhb_detail_em ak date_str) \<Longrightarrow>
     fst (get_lhb_data ak date_str) = (None, None, None)"
  by (cases "stock_lhb_detail_em ak date_str")
     (simp_all add: get_lhb_data_def non_empty_def)

lemma get_lhb_data_shape:
  "fst (get_lhb_data ak date_str) = (None, None, None)
   \<or> (\<exists>detail_df. detail_df \<noteq> [] \<and> stock_lhb_detail_em ak date_str = Frame detail_df
         \<and> get_lhb_data ak date_str
             = ((Some detail_df, frame_of (stock_lhb_jgmmtj_em ak date_str),
                 frame_of (stock_lhb_hyyyb_em ak date_str)), False))"
  by (cases "stock_lhb_detail_em ak date_str"; cases "stock_lhb_jgmmtj_em ak date_str";
      cases "stock_lhb_hyyyb_em ak date_str")
     (simp_all add: get_lhb_data_def)

text \<open>
  Claim C5. When the primary fetch raises, answers \<^verbatim>\<open>None\<close> or answers an empty frame,
  \<^verbatim>\<open>get_lhb_data\<close> returns \<^verbatim>\<open>(None, None, None)\<close>; and whenever the first component of
  its result is absent, so are the other two: no result holds secondary data alone.
\<close>

theorem get_lhb_data_all_or_nothing:
  "(stock_lhb_detail_em ak date_str = Raises \<or> stock_lhb_detail_em ak date_str = Returns_None
      \<or> stock_lhb_detail_em ak date_str = Frame [] \<longrightarrow>
      fst (get_lhb_data ak date_str) = (None, None, None))
   \<and> (fst (fst (get_lhb_data ak date_str)) = None \<longrightarrow>
        fst (get_lhb_data ak date_str) = (None, None, None))"
proof (intro conjI impI)
  assume "stock_lhb_detail_em ak date_str = Raises
      \<or> stock_lhb_detail_em ak date_str = Returns_None
      \<or> stock_lhb_detail_em ak date_str = Frame []"
  then have "\<not> non_empty (stock_lhb_detail_em ak date_str)"
    by (auto simp: non_empty_def)
  then show "fst (get_lhb_data ak date_str) = (None, None, None)"
    by (rule get_lhb_data_primary_miss)
next
  assume "fst (fst (get_lhb_data ak date_str)) = None"
  with get_lhb_data_shape [of ak date_str]
  show "fst (get_lhb_data ak date_str) = (None, None, None)"
    by auto
qed

theorem get_lhb_data_all_or_nothing_witness:
  "stock_lhb_detail_em ex_ak ''20261103'' = Raises
   \<and> stock_lhb_jgmmtj_em ex_ak ''20261103'' = Frame ex_jg
   \<and> stock_lhb_hyyyb_em ex_ak ''20261103'' = Frame ex_yyb
   \<and> fst (fst (get_lhb_data ex_ak ''20261103'')) = None
   \<and> fst (get_lhb_data ex_ak ''20261103'') = (None, None, None)
   \<and> stock_lhb_detail_em ex_ak ''20261102'' = Frame []
   \<and> fst (get_lhb_data ex_ak ''20261102'') = (None, None, None)
   \<and> stock_lhb_detail_em ex_ak ''20261101'' = Returns_None
   \<and> fst (get_lhb_data ex_ak ''20261101'') = (None, None, None)"
proof -
  have a: "stock_lhb_detail_em ex_ak ''20261103'' = Raises"
    and e: "stock_lhb_detail_em ex_ak ''20261102'' = Frame []"
    and n: "stock_lhb_detail_em ex_ak ''20261101'' = Returns_None"
    by code_simp+
  have b: "stock_lhb_jgmmtj_em ex_ak ''20261103'' = Frame ex_jg"
    and b': "stock_lhb_hyyyb_em ex_ak ''20261103'' = Frame ex_yyb"
    by (simp_all add: ex_ak_def)
  from get_lhb_data_all_or_nothing [of ex_ak "''20261103''"] a
  have c: "fst (get_lhb_data ex_ak ''20261103'') = (None, None, None)" by blast
  then have d: "fst (fst (get_lhb_data ex_ak ''20261103'')) = None" by simp
  from get_lhb_data_all_or_nothing [of ex_ak "''20261102''"] e
  have f: "fst (get_lhb_data ex_ak ''20261102'') = (None, None, None)" by blast
  from get_lhb_data_all_or_nothing [of ex_ak "''20261101''"] n
  have g: "fst (get_lhb_data ex_ak ''20261101'') = (None, None, None)" by blast
  show ?thesis by (intro conjI) (fact a b b' d c e f n g)+
qed

text \<open>
  Claim C3, as the code has it. When the primary fetch answers a non-empty frame and
  neither secondary fetch raises, the load returns the disclosure records with whatever
  the secondary fetches answered, and a secondary answer that is \<^verbatim>\<open>None\<close> or an empty
  frame makes its metric zero. When a secondary fetch raises, the handler around the three
  calls returns \<^verbatim>\<open>(None, None, None)\<close> and shows an error.
\<close>

theorem get_lhb_data_secondary:
  "(stock_lhb_detail_em ak date_str = Frame detail_df \<and> detail_df \<noteq> []
      \<and> stock_lhb_jgmmtj_em ak date_str = jg \<and> jg \<noteq> Raises
      \<and> stock_lhb_hyyyb_em ak date_str = yyb \<and> yyb \<noteq> Raises \<longrightarrow>
      get_lhb_data ak date_str = ((Some detail_df, frame_of jg, frame_of yyb), False)
      \<and> (jg = Returns_None \<or> jg = Frame [] \<longrightarrow> jg_buy_total (frame_of jg) = 0)
      \<and> (yyb = Returns_None \<or> yyb = Frame [] \<longrightarrow> waizi_buy_total (frame_of yyb) = 0))
   \<and> (stock_lhb_detail_em ak' date_str' = Frame detail_df' \<and> detail_df' \<noteq> []
        \<and> (stock_lhb_jgmmtj_em ak' date_str' = Raises
             \<or> stock_lhb_hyyyb_em ak' date_str' = Raises) \<longrightarrow>
        get_lhb_data ak' date_str' = ((None, None, None), True))"
proof (intro conjI impI)
  assume h: "stock_lhb_detail_em ak date_str = Frame detail_df \<and> detail_df \<noteq> []
      \<and> stock_lhb_jgmmtj_em ak date_str = jg \<and> jg \<noteq> Raises
      \<and> stock_lhb_hyyyb_em ak date_str = yyb \<and> yyb \<noteq> Raises"
  then show "get_lhb_data ak date_str = ((Some detail_df, frame_of jg, frame_of yyb), False)"
    by (cases jg; cases yyb) (simp_all add: get_lhb_data_def)
next
  assume "jg = Returns_None \<or> jg = Frame []"
  then show "jg_buy_total (frame_of jg) = 0"
    by (auto simp: jg_buy_total_def frame_of_def)
next
  assume "yyb = Returns_None \<or> yyb = Frame []"
  then show "waizi_buy_total (frame_of yyb) = 0"
    by (auto simp: waizi_buy_total_def frame_of_def)
next
  assume "stock_lhb_detail_em ak' date_str' = Frame detail_df' \<and> detail_df' \<noteq> []
        \<and> (stock_lhb_jgmmtj_em ak' date_str' = Raises
             \<or> stock_lhb_hyyyb_em ak' date_str' = Raises)"
  then show "get_lhb_data ak' date_str' = ((None, None, None), True)"
    by (cases "stock_lhb_jgmmtj_em ak' date_str'") (auto simp: get_lhb_data_def)
qed

theorem get_lhb_data_secondary_witness:
  "stock_lhb_detail_em ex_ak_quiet ''20261030'' = Frame ex_day \<and> ex_day \<noteq> []
   \<and> stock_lhb_jgmmtj_em ex_ak_quiet ''20261030'' = Returns_None
   \<and> stock_lhb_hyyyb_em ex_ak_quiet ''20261030'' = Frame []
   \<and> get_lhb_data ex_ak_quiet ''20261030'' = ((Some ex_day, None, Some []), False)
   \<and> jg_buy_total None = 0 \<and> waizi_buy_total (Some []) = 0
   \<and> stock_lhb_detail_em ex_ak_jg_down ''20261030'' = Frame ex_day
   \<and> stock_lhb_jgmmtj_em ex_ak_jg_down ''20261030'' = Raises
   \<and> get_lhb_data ex_ak_jg_down ''20261030'' = ((None, None, None), True)"
proof -
  have q1: "stock_lhb_detail_em ex_ak_quiet ''20261030'' = Frame ex_day"
    and q2: "stock_lhb_jgmmtj_em ex_ak_quiet ''20261030'' = Returns_None"
    and q3: "stock_lhb_hyyyb_em ex_ak_quiet ''20261030'' = Frame []"
    and d1: "stock_lhb_detail_em ex_ak_jg_down ''20261030'' = Frame ex_day"
    and d2: "stock_lhb_jgmmtj_em ex_ak_jg_down ''20261030'' = Raises"
    by (simp_all add: ex_ak_quiet_def ex_ak_jg_down_def ex_ak_def)
  have ne: "ex_day \<noteq> []" by (simp add: ex_day_def)
  have r: "(Returns_None :: jg_row fetch) \<noteq> Raises" "(Frame [] :: yyb_row fetch) \<noteq> Raises"
    by simp_all
  have f: "frame_of (Returns_None :: jg_row fetch) = None"
    "frame_of (Frame [] :: yyb_row fetch) = Some []"
    by (simp_all add: frame_of_def)
  note t = get_lhb_data_secondary
    [of ex_ak_quiet "''20261030''" ex_day Returns_None "Frame []"
        ex_ak_jg_down "''20261030''" ex_day]
  from t q1 q2 q3 ne r f
  have a: "get_lhb_data ex_ak_quiet ''20261030'' = ((Some ex_day, None, Some []), False)"
    and b: "jg_buy_total None = 0" and c: "waizi_buy_total (Some []) = 0"
    by simp_all
  from t d1 d2 ne
  have d: "get_lhb_data ex_ak_jg_down ''20261030'' = ((None, None, None), True)"
    by blast
  from q1 q2 q3 ne a b c d1 d2 d show ?thesis by blast
qed

text \<open>
  As stated, C3 fails: on a day whose disclosure records are there, an institutional
  fetch that raises makes the whole load unavailable, and the page shows no data.
\<close>

theorem get_lhb_data_secondary_raise_counterexample:
  "non_empty (stock_lhb_detail_em ex_ak_jg_down ''20261030'')
   \<and> stock_lhb_jgmmtj_em ex_ak_jg_down ''20261030'' = Raises
   \<and> fst (get_lhb_data ex_ak_jg_down ''20261030'') = (None, None, None)
   \<and> main (ex_world\<lparr>w_ak := ex_ak_jg_down\<rparr>) = No_detail"
  by code_simp

subsection \<open>The foreign-channel total\<close>

lemma str_contains_sublist: "str_contains pat s = sublist pat s"
  by (induction s) (simp_all add: sublist_Cons_right)

text \<open>
  Claim C7. \<^verbatim>\<open>foreign_buy_total\<close> is the sum of the buy amounts of exactly the branch
  records whose name has the marker as a substring (a missing amount counting as 0); a
  record whose name lacks the marker adds nothing, whatever its amount; an absent or empty
  branch set gives 0.
\<close>

theorem waizi_buy_total_marker:
  "waizi_buy_total None = 0 \<and> waizi_buy_total (Some []) = 0
   \<and> waizi_buy_total (Some rows)
       = (\<Sum>r \<leftarrow> filter (\<lambda>r. sublist gu_tong (yyb_name r)) rows.
            case buy_amount r of None \<Rightarrow> 0 | Some a \<Rightarrow> a)
   \<and> (\<not> sublist gu_tong (yyb_name r) \<longrightarrow>
        waizi_buy_total (Some (pre @ r # post)) = waizi_buy_total (Some (pre @ post)))"
proof -
  have m: "waizi_mask = (\<lambda>r. sublist gu_tong (yyb_name r))"
    by (rule ext) (simp add: waizi_mask_def str_contains_sublist)
  have total: "waizi_buy_total (Some xs) = nansum (map buy_amount (filter waizi_mask xs))" for xs
    by (cases xs) (simp_all add: waizi_buy_total_def nansum_def)
  have "\<not> sublist gu_tong (yyb_name r) \<Longrightarrow>
      waizi_buy_total (Some (pre @ r # post)) = waizi_buy_total (Some (pre @ post))"
    by (simp add: total m)
  moreover have "waizi_buy_total (Some rows)
       = (\<Sum>r \<leftarrow> filter (\<lambda>r. sublist gu_tong (yyb_name r)) rows.
            case buy_amount r of None \<Rightarrow> 0 | Some a \<Rightarrow> a)"
    by (simp add: total m nansum_def comp_def)
  moreover have "waizi_buy_total None = 0" "waizi_buy_total (Some []) = 0"
    by (simp_all add: waizi_buy_total_def)
  ultimately show ?thesis by blast
qed

theorem waizi_buy_total_marker_witness:
  "\<not> sublist gu_tong (yyb_name (Yyb_row ''Lhasa East Ring Road'' (Some 900000000)))
   \<and> waizi_buy_total (Some ex_yyb) = 120000000
   \<and> waizi_buy_total (Some (take 1 ex_yyb @ drop 2 ex_yyb)) = 120000000
   \<and> ex_yyb = take 1 ex_yyb @ Yyb_row ''Lhasa East Ring Road'' (Some 900000000) # drop 2 ex_yyb"
proof -
  define lhasa where "lhasa = Yyb_row ''Lhasa East Ring Road'' (Some 900000000)"
  have "\<not> str_contains gu_tong (yyb_name lhasa)" unfolding lhasa_def by code_simp
  then have h: "\<not> sublist gu_tong (yyb_name lhasa)" by (simp add: str_contains_sublist)
  have e: "ex_yyb = take 1 ex_yyb @ lhasa # drop 2 ex_yyb"
    by (simp add: ex_yyb_def lhasa_def)
  have v: "waizi_buy_total (Some (take 1 ex_yyb @ drop 2 ex_yyb)) = 120000000" by code_simp
  from waizi_buy_total_marker [of "take 1 ex_yyb @ drop 2 ex_yyb" lhasa "take 1 ex_yyb" "drop 2 ex_yyb"] h
  have "waizi_buy_total (Some (take 1 ex_yyb @ lhasa # drop 2 ex_yyb))
      = waizi_buy_total (Some (take 1 ex_yyb @ drop 2 ex_yyb))"
    by blast
  with e v have "waizi_buy_total (Some ex_yyb) = 120000000" by simp
  with h e v show ?thesis unfolding lhasa_def by blast
qed

subsection \<open>Ranking\<close>

lemma sort_values_ok_length: "sort_values_ok df ranked \<Longrightarrow> length ranked = length df"
  unfolding sort_values_ok_def by (metis size_mset)

lemma sort_values_ok_nth:
  "sort_values_ok df ranked \<Longrightarrow> i < j \<Longrightarrow> j < length ranked \<Longrightarrow>
     desc_na_last (net_buy (ranked ! i)) (net_buy (ranked ! j))"
  unfolding sort_values_ok_def by (simp add: sorted_wrt_iff_nth_less)

lemma missing_below_numeric:
  assumes "sort_values_ok df ranked" "i < length ranked" "j < length ranked"
    and "net_buy (ranked ! i) = None" "net_buy (ranked ! j) \<noteq> None"
  shows "j < i"
proof (rule ccontr)
  assume "\<not> j < i"
  moreover from assms(4,5) have "i \<noteq> j" by auto
  ultimately have "i < j" by simp
  from sort_values_ok_nth [OF assms(1) this assms(3)] assms(4,5)
  show False by (auto simp: desc_na_last_def)
qed

lemma length_coerce_net_buy: "length (coerce_net_buy parse detail_df) = length detail_df"
  by (simp add: coerce_net_buy_def)

lemma code_coerce_net_buy: "map code (coerce_net_buy parse detail_df) = map code detail_df"
  by (simp add: coerce_net_buy_def detail_row.map_sel)

lemma desc_sorted_rev:
  assumes "\<forall>r \<in> set rows. has_key r" "sorted (map key_of rows)"
  shows "sorted_wrt (\<lambda>a b. desc_na_last (net_buy a) (net_buy b)) (rev rows)"
proof -
  from assms(2) have "sorted_wrt (\<lambda>a b. key_of a \<le> key_of b) rows"
    by (simp add: sorted_map)
  then have "sorted_wrt (\<lambda>a b. desc_na_last (net_buy b) (net_buy a)) rows"
  proof (rule sorted_wrt_mono_rel [rotated])
    fix a b assume "a \<in> set rows" "b \<in> set rows" "key_of a \<le> key_of b"
    moreover from \<open>a \<in> set rows\<close> \<open>b \<in> set rows\<close> assms(1)
    obtain x y where "net_buy a = Some x" "net_buy b = Some y"
      unfolding has_key_def by blast
    ultimately show "desc_na_last (net_buy b) (net_buy a)"
      by (simp add: desc_na_last_def key_of_def)
  qed
  then show ?thesis by (simp add: sorted_wrt_rev)
qed

lemma missing_sorted:
  "sorted_wrt (\<lambda>a b. desc_na_last (net_buy a) (net_buy b)) (filter (\<lambda>r. \<not> has_key r) df)"
  by (rule sorted_wrt_mono_rel [where P = "\<lambda>a b. True"])
     (auto simp: desc_na_last_def has_key_def)

lemma keyed_then_missing:
  assumes "mset keyed = mset (filter has_key df)"
    and "sorted_wrt (\<lambda>a b. desc_na_last (net_buy a) (net_buy b)) keyed"
  shows "sort_values_ok df (keyed @ filter (\<lambda>r. \<not> has_key r) df)"
proof -
  from assms(1) have "set keyed = set (filter has_key df)" by (rule mset_eq_setD)
  then have cross: "\<forall>a \<in> set keyed. \<forall>b \<in> set (filter (\<lambda>r. \<not> has_key r) df).
      desc_na_last (net_buy a) (net_buy b)"
    by (auto simp: desc_na_last_def has_key_def)
  have "mset (keyed @ filter (\<lambda>r. \<not> has_key r) df) = mset df"
    using assms(1) by simp
  with assms(2) cross missing_sorted show ?thesis
    unfolding sort_values_ok_def by (simp add: sorted_wrt_append)
qed

lemma stable_sort_values_ok: "sort_values_ok df (stable_sort_values df)"
  unfolding stable_sort_values_def
  by (rule keyed_then_missing) (simp_all add: desc_sorted_rev)

lemma iloc0_nonempty: "rows \<noteq> [] \<Longrightarrow> iloc0 rows = Inr (rows ! 0)"
  by (cases rows) (simp_all add: iloc0_def)

lemma main_render_dashboard:
  assumes "detail_df \<noteq> []"
    and "ranked = w_sort_values w (coerce_net_buy (w_parse w) detail_df)"
    and "sort_values_ok (coerce_net_buy (w_parse w) detail_df) ranked"
  shows "main_render w shown detail_df jg_df yyb_df =
     Dashboard
       \<lparr>date_display = shown,
        stocks_metric = total_stocks detail_df,
        jg_metric = format_number (w_fdiv w) (Some (jg_buy_total jg_df)),
        waizi_metric = format_number (w_fdiv w) (Some (waizi_buy_total yyb_df)),
        top1 = ranked ! 0,
        top1_net_buy = format_number (w_fdiv w) (net_buy (ranked ! 0)),
        top10_show = map (show_row (w_fdiv w)) (take 10 ranked),
        ai_panel =
          (if w_button w
           then Some (ai_analysis (w_secrets w) (w_chat w) (map ai_row_of (take 10 ranked)))
           else None)\<rparr>"
proof -
  from assms(3) have "length ranked = length detail_df"
    by (simp add: sort_values_ok_length length_coerce_net_buy)
  with assms(1) have "ranked \<noteq> []" by auto
  then have "iloc0 ranked = Inr (ranked ! 0)" by (rule iloc0_nonempty)
  then show ?thesis
    unfolding main_render_def Let_def top1_stock_def top10_df_def assms(2) [symmetric]
    by (simp add: head10_def)
qed

lemma top_is_greatest:
  assumes "sort_values_ok df ranked" "r \<in> set ranked"
  shows "desc_na_last (net_buy (ranked ! 0)) (net_buy r)"
proof -
  from assms(2) obtain j where j: "j < length ranked" "ranked ! j = r"
    by (auto simp: in_set_conv_nth)
  show ?thesis
  proof (cases j)
    case 0
    with j show ?thesis by (auto simp: desc_na_last_def split: option.splits)
  next
    case (Suc k)
    with j sort_values_ok_nth [OF assms(1), of 0 j] show ?thesis by simp
  qed
qed

text \<open>
  With a sort that keeps its promise the page never ends in an error: the frame that
  \<^verbatim>\<open>get_lhb_data\<close> hands over is not empty, so the ranking has a first row.
\<close>

lemma main_never_crashes:
  assumes "\<And>df. sort_values_ok df (w_sort_values w df)"
  shows "main w \<noteq> Crashed e"
proof (cases "fst (find_latest_data (w_strftime w) (stock_lhb_detail_em (w_ak w)) (w_today w))")
  case None
  then show ?thesis by (simp add: main_def)
next
  case (Some found)
  obtain date_str shown where found: "found = (date_str, shown)" by (cases found)
  show ?thesis
  proof (cases "date_str = []")
    case True
    with Some found show ?thesis by (simp add: main_def)
  next
    case False
    from get_lhb_data_shape [of "w_ak w" date_str] show ?thesis
    proof
      assume "fst (get_lhb_data (w_ak w) date_str) = (None, None, None)"
      with Some found False show ?thesis by (simp add: main_def)
    next
      assume "\<exists>detail_df. detail_df \<noteq> []
          \<and> stock_lhb_detail_em (w_ak w) date_str = Frame detail_df
          \<and> get_lhb_data (w_ak w) date_str
              = ((Some detail_df, frame_of (stock_lhb_jgmmtj_em (w_ak w) date_str),
                  frame_of (stock_lhb_hyyyb_em (w_ak w) date_str)), False)"
      then obtain detail_df where ne: "detail_df \<noteq> []"
        and got: "get_lhb_data (w_ak w) date_str
              = ((Some detail_df, frame_of (stock_lhb_jgmmtj_em (w_ak w) date_str),
                  frame_of (stock_lhb_hyyyb_em (w_ak w) date_str)), False)"
        by blast
      have "\<exists>v. main_render w shown detail_df
               (frame_of (stock_lhb_jgmmtj_em (w_ak w) date_str))
               (frame_of (stock_lhb_hyyyb_em (w_ak w) date_str)) = Dashboard v"
        using main_render_dashboard [OF ne refl assms] by blast
      with Some found False got show ?thesis by (auto simp: main_def)
    qed
  qed
qed

text \<open>
  Claim C6. The distinct-stock count is the number of different stock codes in the record
  set. The ranking is made of all the records, duplicates of a code included: it has as
  many rows as were fetched, with the same codes as often, and the table shown is its
  first ten rows, so as many rows as there are records when these are fewer than ten.
\<close>

theorem distinct_count_and_full_ranking:
  "total_stocks detail_df = card (code ` set detail_df)
   \<and> (detail_df \<noteq> []
        \<and> ranked = w_sort_values w (coerce_net_buy (w_parse w) detail_df)
        \<and> sort_values_ok (coerce_net_buy (w_parse w) detail_df) ranked \<longrightarrow>
        (\<exists>v. main_render w shown detail_df jg_df yyb_df = Dashboard v
           \<and> stocks_metric v = card (code ` set detail_df)
           \<and> top10_show v = map (show_row (w_fdiv w)) (take 10 ranked)
           \<and> length (top10_show v) = min 10 (length detail_df))
        \<and> length ranked = length detail_df
        \<and> mset (map code ranked) = mset (map code detail_df))"
proof (intro conjI impI)
  show count: "total_stocks detail_df = card (code ` set detail_df)"
    unfolding total_stocks_def using List.card_set [of "map code detail_df"] by simp
  assume h: "detail_df \<noteq> []
        \<and> ranked = w_sort_values w (coerce_net_buy (w_parse w) detail_df)
        \<and> sort_values_ok (coerce_net_buy (w_parse w) detail_df) ranked"
  then have ne: "detail_df \<noteq> []"
    and eq: "ranked = w_sort_values w (coerce_net_buy (w_parse w) detail_df)"
    and ok: "sort_values_ok (coerce_net_buy (w_parse w) detail_df) ranked"
    by blast+
  from sort_values_ok_length [OF ok] have len: "length ranked = length detail_df"
    by (simp only: length_coerce_net_buy)
  then show "length ranked = length detail_df" .
  from ok have "mset ranked = mset (coerce_net_buy (w_parse w) detail_df)"
    unfolding sort_values_ok_def by blast
  then have "mset (map code ranked) = mset (map code (coerce_net_buy (w_parse w) detail_df))"
    by (metis mset_map)
  then show "mset (map code ranked) = mset (map code detail_df)"
    by (simp only: code_coerce_net_buy)
  from ne eq ok have "main_render w shown detail_df jg_df yyb_df =
     Dashboard
       \<lparr>date_display = shown,
        stocks_metric = total_stocks detail_df,
        jg_metric = format_number (w_fdiv w) (Some (jg_buy_total jg_df)),
        waizi_metric = format_number (w_fdiv w) (Some (waizi_buy_total yyb_df)),
        top1 = ranked ! 0,
        top1_net_buy = format_number (w_fdiv w) (net_buy (ranked ! 0)),
        top10_show = map (show_row (w_fdiv w)) (take 10 ranked),
        ai_panel =
          (if w_button w
           then Some (ai_analysis (w_secrets w) (w_chat w) (map ai_row_of (take 10 ranked)))
           else None)\<rparr>"
    by (rule main_render_dashboard)
  with count len
  show "\<exists>v. main_render w shown detail_df jg_df yyb_df = Dashboard v
           \<and> stocks_metric v = card (code ` set detail_df)
           \<and> top10_show v = map (show_row (w_fdiv w)) (take 10 ranked)
           \<and> length (top10_show v) = min 10 (length detail_df)"
    by (simp add: min.commute)
qed


theorem distinct_count_and_full_ranking_witness:
  "ex_day \<noteq> []
   \<and> sort_values_ok (coerce_net_buy (w_parse ex_world) ex_day)
        (w_sort_values ex_world (coerce_net_buy (w_parse ex_world) ex_day))
   \<and> length ex_day = 4 \<and> card (code ` set ex_day) = 3
   \<and> (\<exists>v. main_render ex_world ''d'' ex_day (Some ex_jg) (Some ex_yyb) = Dashboard v
         \<and> stocks_metric v = 3 \<and> length (top10_show v) = 4
         \<and> map (\<lambda>shown. fst (snd shown)) (top10_show v)
             = [''000001'', ''300750'', ''600000'', ''600000''])"
proof -
  define ranked where
    "ranked = w_sort_values ex_world (coerce_net_buy (w_parse ex_world) ex_day)"
  have ne: "ex_day \<noteq> []" and len: "length ex_day = 4" by (simp_all add: ex_day_def)
  have ok: "sort_values_ok (coerce_net_buy (w_parse ex_world) ex_day) ranked"
    unfolding ranked_def by (simp add: ex_world_def stable_sort_values_ok)
  have ts: "total_stocks ex_day = 3" by code_simp
  have codes: "map (\<lambda>shown. fst (snd shown))
      (map (show_row (w_fdiv ex_world))
         (take 10 (w_sort_values ex_world (coerce_net_buy (w_parse ex_world) ex_day))))
      = [''000001'', ''300750'', ''600000'', ''600000'']"
    by code_simp
  note t = distinct_count_and_full_ranking
    [of ex_day ranked ex_world "''d''" "Some ex_jg" "Some ex_yyb"]
  from t ts have card: "card (code ` set ex_day) = 3" by simp
  from t ne ok ranked_def obtain v where
    v: "main_render ex_world ''d'' ex_day (Some ex_jg) (Some ex_yyb) = Dashboard v"
      "stocks_metric v = card (code ` set ex_day)"
      "top10_show v = map (show_row (w_fdiv ex_world)) (take 10 ranked)"
      "length (top10_show v) = min 10 (length ex_day)"
    by blast
  from v(2) card have s3: "stocks_metric v = 3" by simp
  from v(4) len have l4: "length (top10_show v) = 4" by simp
  from v(3) codes
  have cs: "map (\<lambda>shown. fst (snd shown)) (top10_show v)
      = [''000001'', ''300750'', ''600000'', ''600000'']"
    by (simp only: ranked_def)
  note ok' = ok [unfolded ranked_def]
  show ?thesis
    by (intro conjI exI [of _ v]) (fact ne ok' len card v(1) s3 l4 cs)+
qed

text \<open>
  Claim C9. For a non-empty record set: coercion turns a cell that is missing or a
  text that does not parse into the missing value and keeps a number; in the ranking every
  row with a missing key stands below every row with a number; the top entry is the row at
  position 0 of the ranking, found without an error, it bears a key no other row exceeds,
  and it bears a number as soon as one row does; the top-10 slice is the first ten rows of
  the ranking, all of them when there are fewer than ten.
\<close>

theorem coerced_ranking_top:
  "detail_df \<noteq> [] \<and> df = coerce_net_buy parse detail_df \<and> ranked = sort_values df
     \<and> sort_values_ok df ranked \<longrightarrow>
     (\<forall>k < length detail_df.
        (net_buy (detail_df ! k) = NaN
           \<or> (\<exists>s. net_buy (detail_df ! k) = Text s \<and> parse s = None)
         \<longrightarrow> net_buy (df ! k) = None)
        \<and> (\<forall>x. net_buy (detail_df ! k) = Number x \<longrightarrow> net_buy (df ! k) = Some x))
     \<and> (\<forall>i < length ranked. \<forall>j < length ranked.
          net_buy (ranked ! i) = None \<and> net_buy (ranked ! j) \<noteq> None \<longrightarrow> j < i)
     \<and> top1_stock sort_values df = Inr (ranked ! 0)
     \<and> (\<forall>r \<in> set df. desc_na_last (net_buy (ranked ! 0)) (net_buy r))
     \<and> ((\<exists>r \<in> set df. net_buy r \<noteq> None) \<longrightarrow> net_buy (ranked ! 0) \<noteq> None)
     \<and> top10_df sort_values df = take 10 ranked
     \<and> length (top10_df sort_values df) = min 10 (length detail_df)"
proof (intro impI)
  assume h: "detail_df \<noteq> [] \<and> df = coerce_net_buy parse detail_df \<and> ranked = sort_values df
     \<and> sort_values_ok df ranked"
  then have ne: "detail_df \<noteq> []" and df: "df = coerce_net_buy parse detail_df"
    and ranked: "ranked = sort_values df" and ok: "sort_values_ok df ranked"
    by blast+
  have len: "length ranked = length detail_df"
    using sort_values_ok_length [OF ok] by (simp add: df length_coerce_net_buy)
  with ne have rne: "ranked \<noteq> []" by auto
  from ok have sets: "set ranked = set df"
    unfolding sort_values_ok_def by (metis mset_eq_setD)
  have coerce: "\<forall>k < length detail_df.
        (net_buy (detail_df ! k) = NaN
           \<or> (\<exists>s. net_buy (detail_df ! k) = Text s \<and> parse s = None)
         \<longrightarrow> net_buy (df ! k) = None)
        \<and> (\<forall>x. net_buy (detail_df ! k) = Number x \<longrightarrow> net_buy (df ! k) = Some x)"
    by (auto simp: df coerce_net_buy_def detail_row.map_sel to_numeric_def)
  have below: "\<forall>i < length ranked. \<forall>j < length ranked.
          net_buy (ranked ! i) = None \<and> net_buy (ranked ! j) \<noteq> None \<longrightarrow> j < i"
    using missing_below_numeric [OF ok] by blast
  have first: "top1_stock sort_values df = Inr (ranked ! 0)"
    using iloc0_nonempty [OF rne] by (simp add: top1_stock_def ranked)
  have greatest: "\<forall>r \<in> set df. desc_na_last (net_buy (ranked ! 0)) (net_buy r)"
    using top_is_greatest [OF ok] sets by blast
  have numeric: "(\<exists>r \<in> set df. net_buy r \<noteq> None) \<longrightarrow> net_buy (ranked ! 0) \<noteq> None"
  proof
    assume "\<exists>r \<in> set df. net_buy r \<noteq> None"
    then obtain r where "r \<in> set df" "net_buy r \<noteq> None" by blast
    with greatest have "desc_na_last (net_buy (ranked ! 0)) (net_buy r)" by blast
    with \<open>net_buy r \<noteq> None\<close> show "net_buy (ranked ! 0) \<noteq> None"
      by (auto simp: desc_na_last_def split: option.splits)
  qed
  have ten: "top10_df sort_values df = take 10 ranked"
    by (simp add: top10_df_def head10_def ranked)
  then have "length (top10_df sort_values df) = min 10 (length detail_df)"
    using len by (simp add: min.commute)
  with coerce below first greatest numeric ten
  show "(\<forall>k < length detail_df.
        (net_buy (detail_df ! k) = NaN
           \<or> (\<exists>s. net_buy (detail_df ! k) = Text s \<and> parse s = None)
         \<longrightarrow> net_buy (df ! k) = None)
        \<and> (\<forall>x. net_buy (detail_df ! k) = Number x \<longrightarrow> net_buy (df ! k) = Some x))
     \<and> (\<forall>i < length ranked. \<forall>j < length ranked.
          net_buy (ranked ! i) = None \<and> net_buy (ranked ! j) \<noteq> None \<longrightarrow> j < i)
     \<and> top1_stock sort_values df = Inr (ranked ! 0)
     \<and> (\<forall>r \<in> set df. desc_na_last (net_buy (ranked ! 0)) (net_buy r))
     \<and> ((\<exists>r \<in> set df. net_buy r \<noteq> None) \<longrightarrow> net_buy (ranked ! 0) \<noteq> None)
     \<and> top10_df sort_values df = take 10 ranked
     \<and> length (top10_df sort_values df) = min 10 (length detail_df)"
    by blast
qed


theorem coerced_ranking_top_witness:
  "ex_dirty \<noteq> []
   \<and> sort_values_ok (coerce_net_buy ex_parse ex_dirty)
        (stable_sort_values (coerce_net_buy ex_parse ex_dirty))
   \<and> net_buy (ex_dirty ! 0) = Text ''--'' \<and> ex_parse ''--'' = None
   \<and> net_buy (coerce_net_buy ex_parse ex_dirty ! 0) = None
   \<and> stable_sort_values (coerce_net_buy ex_parse ex_dirty)
       = [as_num row_b, as_num row_d, as_num row_a, as_num row_c, as_num row_e]
   \<and> top1_stock stable_sort_values (coerce_net_buy ex_parse ex_dirty) = Inr (as_num row_b)
   \<and> net_buy (as_num row_b) = Some 100
   \<and> length (top10_df stable_sort_values (coerce_net_buy ex_parse ex_dirty)) = 5"
proof -
  define df where "df = coerce_net_buy ex_parse ex_dirty"
  define ranked where "ranked = stable_sort_values df"
  have ne: "ex_dirty \<noteq> []" and len: "length ex_dirty = 5" and k: "0 < length ex_dirty"
    by (simp_all add: ex_dirty_def)
  have ok: "sort_values_ok df ranked" unfolding ranked_def by (rule stable_sort_values_ok)
  have cell: "net_buy (ex_dirty ! 0) = Text ''--''" by (simp add: ex_dirty_def row_e_def)
  have unparsed: "ex_parse ''--'' = None" by (simp add: ex_parse_def)
  have order: "stable_sort_values (coerce_net_buy ex_parse ex_dirty)
       = [as_num row_b, as_num row_d, as_num row_a, as_num row_c, as_num row_e]"
    by code_simp
  then have r0: "ranked ! 0 = as_num row_b" by (simp add: ranked_def df_def)
  have hundred: "net_buy (as_num row_b) = Some 100" by code_simp
  have hyp: "ex_dirty \<noteq> [] \<and> df = coerce_net_buy ex_parse ex_dirty
      \<and> ranked = stable_sort_values df \<and> sort_values_ok df ranked"
    by (intro conjI) (fact ne df_def ranked_def ok)+
  note t = mp [OF coerced_ranking_top [of ex_dirty df ex_parse ranked stable_sort_values] hyp]
  from t
  have a: "\<forall>k < length ex_dirty.
        (net_buy (ex_dirty ! k) = NaN
           \<or> (\<exists>s. net_buy (ex_dirty ! k) = Text s \<and> ex_parse s = None)
         \<longrightarrow> net_buy (df ! k) = None)
        \<and> (\<forall>x. net_buy (ex_dirty ! k) = Number x \<longrightarrow> net_buy (df ! k) = Some x)"
    by (elim conjE)
  from t have b: "top1_stock stable_sort_values df = Inr (ranked ! 0)"
    by (elim conjE)
  from t have c: "length (top10_df stable_sort_values df) = min 10 (length ex_dirty)"
    by (elim conjE)
  from a k cell unparsed have missing: "net_buy (df ! 0) = None" by blast
  from b r0 have top: "top1_stock stable_sort_values df = Inr (as_num row_b)" by simp
  from c len have five: "length (top10_df stable_sort_values df) = 5" by simp
  show ?thesis
    by (intro conjI)
       (fact ne ok [unfolded ranked_def df_def] cell unparsed missing [unfolded df_def] order
          top [unfolded df_def] hundred five [unfolded df_def])+
qed

subsection \<open>The commentary panel\<close>

text \<open>
  Claim C8. When the secrets cannot be read or hold no \<open>openai\<close> section, the panel
  reports the configuration error and sends no request to the chat endpoint. When the
  section holds the key and the base address and names no model, the one request sent
  names the model \<open>gpt-3.5-turbo\<close>.
\<close>

theorem ai_analysis_config:
  "(secrets = Unreadable \<or> (\<exists>toml. secrets = Secrets toml \<and> map_of toml ''openai'' = None) \<longrightarrow>
      ai_analysis secrets chat ai_df = (Config_error, []))
   \<and> (map_of toml' ''openai'' = Some openai \<and> map_of openai ''api_key'' = Some api_key
        \<and> map_of openai ''base_url'' = Some base_url \<and> map_of openai ''model'' = None \<longrightarrow>
        snd (ai_analysis (Secrets toml') chat' ai_df')
          = [\<lparr>req_api_key = api_key, req_base_url = base_url,
              req_model = ''gpt-3.5-turbo'', req_table = ai_df'\<rparr>])"
proof (intro conjI impI)
  assume "secrets = Unreadable \<or> (\<exists>toml. secrets = Secrets toml \<and> map_of toml ''openai'' = None)"
  then show "ai_analysis secrets chat ai_df = (Config_error, [])"
    by (auto simp: ai_analysis_def)
next
  assume "map_of toml' ''openai'' = Some openai \<and> map_of openai ''api_key'' = Some api_key
        \<and> map_of openai ''base_url'' = Some base_url \<and> map_of openai ''model'' = None"
  then show "snd (ai_analysis (Secrets toml') chat' ai_df')
          = [\<lparr>req_api_key = api_key, req_base_url = base_url,
              req_model = ''gpt-3.5-turbo'', req_table = ai_df'\<rparr>]"
    by (simp add: ai_analysis_def Let_def split: sum.splits)
qed

theorem ai_analysis_config_witness:
  "ai_analysis Unreadable ex_chat [] = (Config_error, [])
   \<and> map_of [(''other'', [(''api_key'', ''sk-1'')])] ''openai'' = None
   \<and> ai_analysis (Secrets [(''other'', [(''api_key'', ''sk-1'')])]) ex_chat [] = (Config_error, [])
   \<and> map_of [(''openai'', [(''api_key'', ''sk-1''), (''base_url'', ''https://api'')])] ''openai''
       = Some [(''api_key'', ''sk-1''), (''base_url'', ''https://api'')]
   \<and> map_of [(''api_key'', ''sk-1''), (''base_url'', ''https://api'')] ''model'' = None
   \<and> snd (ai_analysis
             (Secrets [(''openai'', [(''api_key'', ''sk-1''), (''base_url'', ''https://api'')])])
             ex_chat [])
       = [\<lparr>req_api_key = ''sk-1'', req_base_url = ''https://api'',
           req_model = ''gpt-3.5-turbo'', req_table = []\<rparr>]"
proof -
  define other where "other = [(''other'', [(''api_key'', ''sk-1'')])]"
  define sect where "sect = [(''api_key'', ''sk-1''), (''base_url'', ''https://api'')]"
  have n: "map_of other ''openai'' = None" by (simp add: other_def)
  have s: "map_of [(''openai'', sect)] ''openai'' = Some sect" by simp
  have k: "map_of sect ''api_key'' = Some ''sk-1''"
    and u: "map_of sect ''base_url'' = Some ''https://api''"
    and m: "map_of sect ''model'' = None"
    by (simp_all add: sect_def)
  have a: "ai_analysis Unreadable ex_chat [] = (Config_error, [])"
    using ai_analysis_config [of Unreadable ex_chat "[]"] by blast
  have b: "ai_analysis (Secrets other) ex_chat [] = (Config_error, [])"
    using ai_analysis_config [of "Secrets other" ex_chat "[]"] n by blast
  have c: "snd (ai_analysis (Secrets [(''openai'', sect)]) ex_chat [])
       = [\<lparr>req_api_key = ''sk-1'', req_base_url = ''https://api'',
           req_model = ''gpt-3.5-turbo'', req_table = []\<rparr>]"
    using ai_analysis_config
      [of _ _ _ "[(''openai'', sect)]" sect "''sk-1''" "''https://api''" ex_chat "[]"] s k u m
    by blast
  show ?thesis
    by (intro conjI)
       (fact a n [unfolded other_def] b [unfolded other_def] s [unfolded sect_def]
          m [unfolded sect_def] c [unfolded sect_def])+
qed

end
